theory Spec2Isabelle
  imports Complex_Main
begin

section \<open>The data of the prompt application\<close>

text \<open>
  Modelled from the spec: the type \<open>Prompt\<close> is declared in \<^verbatim>\<open>./types\<close>, which is not
  part of the sources at hand. The spec describes it as an immutable record with a genre
  label and a prompt text; \<^verbatim>\<open>App.tsx\<close> reads only the field \<open>genre\<close>.
\<close>

record prompt =
  genre :: string
  body :: string

text \<open>
  The five \<^verbatim>\<open>useState\<close> cells of the component \<open>App\<close>. A cell typed
  \<^verbatim>\<open>T | null\<close> is an option; \<open>None\<close> is the value on which \<^verbatim>\<open>!x\<close>
  holds.
\<close>

record ui_state =
  currentPrompt :: "prompt option"
  storyIdeas :: "string list"
  isLoadingIdeas :: bool
  error :: "string option"
  selectedGenre :: string

definition initial :: ui_state where
  "initial = \<lparr>currentPrompt = None, storyIdeas = [], isLoadingIdeas = False,
     error = None, selectedGenre = ''All''\<rparr>"

section \<open>Picking a prompt\<close>

text \<open>
  The list \<open>PROMPTS\<close> comes from \<^verbatim>\<open>./constants\<close> and is a parameter here.
  \<^verbatim>\<open>selectedGenre === 'All' ? PROMPTS : PROMPTS.filter(p => p.genre === selectedGenre)\<close>
\<close>

definition filteredPrompts :: "prompt list \<Rightarrow> string \<Rightarrow> prompt list" where
  "filteredPrompts PROMPTS g =
     (if g = ''All'' then PROMPTS else filter (\<lambda>p. genre p = g) PROMPTS)"

text \<open>
  \<^verbatim>\<open>Math.floor(Math.random() * n)\<close>. The draw \<open>r\<close> of \<^verbatim>\<open>Math.random()\<close> is a
  parameter; every double is a rational number, and the product is taken exactly. The
  machine rounds the product to a double, so at one and the same draw it may pick a
  neighbouring index; its index still lies below \<open>n\<close>, and is the exact floor for some
  other draw of \<open>[0, 1)\<close> (\<open>every_index_some_draw\<close> below). What is proved of the
  chosen prompt is proved for every \<open>r\<close>, hence for every index.
\<close>

definition randomIndex :: "rat \<Rightarrow> nat \<Rightarrow> int" where
  "randomIndex r n = \<lfloor>r * of_nat n\<rfloor>"

text \<open>
  A JavaScript array read \<^verbatim>\<open>xs[i]\<close>: out of range it yields \<^verbatim>\<open>undefined\<close>,
  which a cell of type \<^verbatim>\<open>Prompt | null\<close> treats as no prompt.
\<close>

definition at_index :: "'a list \<Rightarrow> int \<Rightarrow> 'a option" where
  "at_index xs i = (if 0 \<le> i \<and> i < int (length xs) then Some (xs ! nat i) else None)"

definition noPromptsMessage :: "string \<Rightarrow> string" where
  \<open>noPromptsMessage g =
     ''No prompts found for the "'' @ g @ ''" genre. Please select another.''\<close>

definition handleGeneratePrompt :: "prompt list \<Rightarrow> rat \<Rightarrow> ui_state \<Rightarrow> ui_state" where
  "handleGeneratePrompt PROMPTS r s =
     (let s1 = s\<lparr>error := None\<rparr>;
          fp = filteredPrompts PROMPTS (selectedGenre s)
      in if length fp = 0
         then s1\<lparr>error := Some (noPromptsMessage (selectedGenre s))\<rparr>
         else s1\<lparr>currentPrompt := at_index fp (randomIndex r (length fp)),
                 storyIdeas := []\<rparr>)"

section \<open>The two inline handlers\<close>

text \<open>The \<^verbatim>\<open>onChange\<close> of the genre \<^verbatim>\<open>select\<close>, with \<open>g\<close> the chosen value.\<close>

definition genreSelector_onChange :: "string \<Rightarrow> ui_state \<Rightarrow> ui_state" where
  "genreSelector_onChange g s =
     s\<lparr>selectedGenre := g, currentPrompt := None, storyIdeas := [], error := None\<rparr>"

text \<open>The \<^verbatim>\<open>onClick\<close> of the button labelled Change Genre.\<close>

definition changeGenre_onClick :: "ui_state \<Rightarrow> ui_state" where
  "changeGenre_onClick s = s\<lparr>currentPrompt := None, storyIdeas := []\<rparr>"

section \<open>Requesting story ideas\<close>

text \<open>
  Modelled from the spec: \<open>generateStoryIdeas\<close> lives in \<^verbatim>\<open>./services/geminiService\<close>,
  which is not part of the sources at hand. The spec describes it as one pass-through call
  that returns the parsed ideas, and whose failure reaches the user as an error message.
  Its promise therefore settles in one of two ways: it resolves with a list of ideas, or
  it rejects with a value whose \<open>message\<close> property is a string or is not there
  (\<open>None\<close>). A rejection with \<^verbatim>\<open>null\<close> or \<^verbatim>\<open>undefined\<close>, on which reading a
  property throws, is outside this model.
\<close>

datatype outcome = Resolved "string list" | Rejected "string option"

text \<open>
  \<^verbatim>\<open>e.message || "An unknown error occurred."\<close>: the right operand is taken when the
  left one is falsy, which for a message means \<^verbatim>\<open>undefined\<close> or the empty string.
\<close>

definition message_or :: "string option \<Rightarrow> string \<Rightarrow> string" where
  "message_or m d = (case m of None \<Rightarrow> d | Some t \<Rightarrow> if t = [] then d else t)"

text \<open>
  \<open>handleGenerateIdeas\<close> is an \<^verbatim>\<open>async\<close> function with one \<^verbatim>\<open>await\<close>. Its
  body up to the \<^verbatim>\<open>await\<close> runs when the button is clicked; the second component of
  the result is the call to \<open>generateStoryIdeas\<close> it has issued, if any.
\<close>

definition handleGenerateIdeas_begin :: "bool \<Rightarrow> ui_state \<Rightarrow> ui_state \<times> prompt option" where
  "handleGenerateIdeas_begin hasApiKey s =
     (case currentPrompt s of
        None \<Rightarrow> (s, None)
      | Some p \<Rightarrow>
          if \<not> hasApiKey
          then (s\<lparr>error := Some ''AI features are disabled. Please configure your API key.''\<rparr>,
                None)
          else (s\<lparr>isLoadingIdeas := True, error := None, storyIdeas := []\<rparr>, Some p))"

text \<open>
  The rest of the body runs when the promise settles, on the state of that moment:
  \<^verbatim>\<open>try\<close> stores the ideas, \<^verbatim>\<open>catch\<close> stores the message, \<^verbatim>\<open>finally\<close> clears
  the loading flag.
\<close>

definition handleGenerateIdeas_settle :: "outcome \<Rightarrow> ui_state \<Rightarrow> ui_state" where
  "handleGenerateIdeas_settle out s =
     (case out of
        Resolved ideas \<Rightarrow> s\<lparr>storyIdeas := ideas\<rparr>\<lparr>isLoadingIdeas := False\<rparr>
      | Rejected m \<Rightarrow>
          s\<lparr>error := Some (message_or m ''An unknown error occurred.'')\<rparr>
           \<lparr>isLoadingIdeas := False\<rparr>)"

text \<open>
  One whole execution with nothing else happening during the \<^verbatim>\<open>await\<close>. The service
  is a function of the prompt and of the number of calls made before, so that a second
  call could be told from the first; the result carries the list of calls made.
\<close>

definition handleGenerateIdeas ::
  "bool \<Rightarrow> (prompt \<Rightarrow> nat \<Rightarrow> outcome) \<Rightarrow> ui_state \<Rightarrow> ui_state \<times> prompt list" where
  "handleGenerateIdeas hasApiKey generateStoryIdeas s =
     (case handleGenerateIdeas_begin hasApiKey s of
        (s1, None) \<Rightarrow> (s1, [])
      | (s1, Some p) \<Rightarrow> (handleGenerateIdeas_settle (generateStoryIdeas p 0) s1, [p]))"

section \<open>The application as a transition system\<close>

text \<open>
  The user's events and the settling of a pending call. The component renders the genre
  selector and Generate a Prompt only without a prompt, and Change Genre and Spark
  Creativity only with one; Spark Creativity is disabled while \<open>isLoadingIdeas\<close> holds or
  no API key is configured. Change Genre carries no \<^verbatim>\<open>disabled\<close> attribute.
\<close>

datatype event =
    ClickGeneratePrompt rat
  | SelectGenre string
  | ClickChangeGenre
  | ClickSparkCreativity
  | Settled outcome

record app =
  ui :: ui_state
  pending :: "prompt list"

definition start :: app where
  "start = \<lparr>ui = initial, pending = []\<rparr>"

definition in_unit :: "rat \<Rightarrow> bool" where
  "in_unit r = (0 \<le> r \<and> r < 1)"

definition step :: "prompt list \<Rightarrow> string list \<Rightarrow> bool \<Rightarrow> event \<Rightarrow> app \<Rightarrow> app option" where
  "step PROMPTS GENRES hasApiKey ev a =
     (case ev of
        ClickGeneratePrompt r \<Rightarrow>
          if currentPrompt (ui a) = None \<and> in_unit r
          then Some (a\<lparr>ui := handleGeneratePrompt PROMPTS r (ui a)\<rparr>) else None
      | SelectGenre g \<Rightarrow>
          if currentPrompt (ui a) = None \<and> g \<in> set GENRES
          then Some (a\<lparr>ui := genreSelector_onChange g (ui a)\<rparr>) else None
      | ClickChangeGenre \<Rightarrow>
          if currentPrompt (ui a) \<noteq> None
          then Some (a\<lparr>ui := changeGenre_onClick (ui a)\<rparr>) else None
      | ClickSparkCreativity \<Rightarrow>
          if currentPrompt (ui a) \<noteq> None \<and> \<not> (isLoadingIdeas (ui a) \<or> \<not> hasApiKey)
          then (case handleGenerateIdeas_begin hasApiKey (ui a) of
                  (s1, None) \<Rightarrow> Some (a\<lparr>ui := s1\<rparr>)
                | (s1, Some p) \<Rightarrow> Some (a\<lparr>ui := s1, pending := pending a @ [p]\<rparr>))
          else None
      | Settled out \<Rightarrow>
          (case pending a of
             [] \<Rightarrow> None
           | p # ps \<Rightarrow> Some (a\<lparr>ui := handleGenerateIdeas_settle out (ui a), pending := ps\<rparr>)))"

fun run :: "prompt list \<Rightarrow> string list \<Rightarrow> bool \<Rightarrow> event list \<Rightarrow> app \<Rightarrow> app option" where
  "run PROMPTS GENRES hasApiKey [] a = Some a"
| "run PROMPTS GENRES hasApiKey (ev # evs) a =
     (case step PROMPTS GENRES hasApiKey ev a of
        None \<Rightarrow> None
      | Some a' \<Rightarrow> run PROMPTS GENRES hasApiKey evs a')"

section \<open>Concrete data for the examples\<close>

definition fantasy :: prompt where
  "fantasy = \<lparr>genre = ''Fantasy'', body = ''A dragon forgets how to fly.''\<rparr>"

definition horror :: prompt where
  "horror = \<lparr>genre = ''Horror'', body = ''The lighthouse lamp turns by itself.''\<rparr>"

definition shown :: ui_state where
  "shown = initial\<lparr>currentPrompt := Some fantasy\<rparr>"

definition shown_app :: app where
  "shown_app = \<lparr>ui = shown, pending = []\<rparr>"

definition loading_app :: app where
  "loading_app = \<lparr>ui = shown\<lparr>isLoadingIdeas := True\<rparr>, pending = [fantasy]\<rparr>"

definition failing_service :: "prompt \<Rightarrow> nat \<Rightarrow> outcome" where
  "failing_service p n = Rejected (Some ''quota exceeded'')"

definition silent_service :: "prompt \<Rightarrow> nat \<Rightarrow> outcome" where
  "silent_service p n = Rejected None"

definition working_service :: "prompt \<Rightarrow> nat \<Rightarrow> outcome" where
  "working_service p n = Resolved [''The dragon hires a tutor.'', ''The dragon walks.'']"

text \<open>The condition the spec names: a non-empty idea list only with a prompt.\<close>

definition ideas_need_prompt :: "ui_state \<Rightarrow> bool" where
  "ideas_need_prompt s = (storyIdeas s = [] \<or> currentPrompt s \<noteq> None)"

text \<open>At most one call is pending, and the loading flag says whether one is.\<close>

definition one_pending :: "app \<Rightarrow> bool" where
  "one_pending a = (length (pending a) \<le> 1 \<and> isLoadingIdeas (ui a) = (pending a \<noteq> []))"

text \<open>
  The state after Generate a Prompt, Spark Creativity and then Change Genre: the call for
  the first prompt is still pending, and no prompt is shown any more.
\<close>

definition interrupted_app :: app where
  "interrupted_app = \<lparr>ui = initial\<lparr>isLoadingIdeas := True\<rparr>, pending = [fantasy]\<rparr>"

text \<open>At most one call is pending, and while one is, the idea list is empty.\<close>

definition pending_no_ideas :: "app \<Rightarrow> bool" where
  "pending_no_ideas a =
     (length (pending a) \<le> 1 \<and> (pending a = [] \<or> storyIdeas (ui a) = []))"

section \<open>Facts about the handlers\<close>

lemmas handler_defs =
  handleGeneratePrompt_def filteredPrompts_def at_index_def noPromptsMessage_def
  genreSelector_onChange_def changeGenre_onClick_def handleGenerateIdeas_begin_def
  handleGenerateIdeas_settle_def handleGenerateIdeas_def message_or_def

lemmas example_defs =
  initial_def start_def fantasy_def horror_def shown_def shown_app_def loading_app_def
  failing_service_def silent_service_def working_service_def

lemma randomIndex_in_range:
  assumes "in_unit r" and "0 < n"
  shows "0 \<le> randomIndex r n \<and> randomIndex r n < int n"
proof -
  have "r * of_nat n < of_nat n"
    using assms by (simp add: in_unit_def)
  then have "\<lfloor>r * of_nat n\<rfloor> < int n"
    by (simp add: floor_less_iff)
  moreover have "0 \<le> r * of_nat n"
    using assms by (simp add: in_unit_def)
  ultimately show ?thesis
    by (simp add: randomIndex_def)
qed

lemma every_index_some_draw:
  assumes "i < n"
  shows "\<exists>r. in_unit r \<and> randomIndex r n = int i"
proof -
  let ?r = "of_nat i / of_nat n :: rat"
  have "in_unit ?r"
    using assms by (simp add: in_unit_def)
  moreover have "?r * of_nat n = of_nat i"
    using assms by simp
  then have "randomIndex ?r n = int i"
    by (simp add: randomIndex_def)
  ultimately show ?thesis
    by blast
qed

lemma randomIndex_half_one: "randomIndex (1 / 2) (Suc 0) = 0"
  by (simp add: randomIndex_def floor_eq_iff)

lemma at_index_member: "at_index xs i = Some x \<Longrightarrow> x \<in> set xs"
  by (auto simp: at_index_def split: if_splits)

lemma filteredPrompts_subset: "set (filteredPrompts PROMPTS g) \<subseteq> set PROMPTS"
  by (auto simp: filteredPrompts_def)

lemma filteredPrompts_genre:
  "g \<noteq> ''All'' \<Longrightarrow> p \<in> set (filteredPrompts PROMPTS g) \<Longrightarrow> genre p = g"
  by (simp add: filteredPrompts_def)

lemma filteredPrompts_empty_iff:
  "filteredPrompts PROMPTS g = [] \<longleftrightarrow>
     (if g = ''All'' then PROMPTS = [] else \<forall>p \<in> set PROMPTS. genre p \<noteq> g)"
  by (auto simp: filteredPrompts_def filter_empty_conv)

text \<open>Whatever step changes the prompt leaves the idea list empty.\<close>

lemma step_prompt_change_clears:
  assumes "step PROMPTS GENRES hasApiKey ev a = Some a'"
    and "currentPrompt (ui a') \<noteq> currentPrompt (ui a)"
  shows "storyIdeas (ui a') = []"
  using assms
  by (auto simp: step_def handler_defs Let_def
      split: event.splits if_splits option.splits list.splits outcome.splits)

lemma step_enters_loading:
  assumes "step PROMPTS GENRES hasApiKey ev a = Some a'"
    and "\<not> isLoadingIdeas (ui a)" and "isLoadingIdeas (ui a')"
  shows "ev = ClickSparkCreativity \<and> currentPrompt (ui a) \<noteq> None"
  using assms
  by (auto simp: step_def handler_defs Let_def
      split: event.splits if_splits option.splits list.splits outcome.splits)

lemma step_leaves_loading:
  assumes "step PROMPTS GENRES hasApiKey ev a = Some a'"
    and "isLoadingIdeas (ui a)" and "\<not> isLoadingIdeas (ui a')"
  shows "(\<exists>ideas. ev = Settled (Resolved ideas) \<and> storyIdeas (ui a') = ideas) \<or>
         (\<exists>m. ev = Settled (Rejected m) \<and> error (ui a') \<noteq> None)"
  using assms
  by (auto simp: step_def handler_defs Let_def
      split: event.splits if_splits option.splits list.splits outcome.splits)

lemma step_shows_prompt:
  assumes "step PROMPTS GENRES hasApiKey ev a = Some a'"
    and "currentPrompt (ui a) = None" and "currentPrompt (ui a') \<noteq> None"
  shows "\<exists>r. ev = ClickGeneratePrompt r"
  using assms
  by (auto simp: step_def handler_defs Let_def
      split: event.splits if_splits option.splits list.splits outcome.splits)

lemma step_settles:
  assumes "pending a \<noteq> []"
  shows "\<exists>a'. step PROMPTS GENRES hasApiKey (Settled out) a = Some a' \<and>
              \<not> isLoadingIdeas (ui a') \<and> pending a' = tl (pending a)"
  using assms
  by (cases "pending a") (auto simp: step_def handleGenerateIdeas_settle_def split: outcome.splits)

text \<open>
  The rendering admits one call at a time: in every state reached from the start, at most
  one call is pending, and the loading flag holds exactly while it is.
\<close>

lemma step_one_pending:
  assumes "step PROMPTS GENRES hasApiKey ev a = Some a'" and "one_pending a"
  shows "one_pending a'"
  using assms
  by (auto simp: step_def one_pending_def handler_defs Let_def
      split: event.splits if_splits option.splits list.splits outcome.splits)

lemma run_one_pending:
  "run PROMPTS GENRES hasApiKey evs a = Some a' \<Longrightarrow> one_pending a \<Longrightarrow> one_pending a'"
proof (induction evs arbitrary: a)
  case Nil
  then show ?case by simp
next
  case (Cons ev evs)
  then obtain b where b: "step PROMPTS GENRES hasApiKey ev a = Some b"
    and rest: "run PROMPTS GENRES hasApiKey evs b = Some a'"
    by (auto split: option.splits)
  from b Cons.prems(2) have "one_pending b" by (rule step_one_pending)
  with rest show ?case by (rule Cons.IH)
qed

lemma reachable_one_pending:
  "run PROMPTS GENRES hasApiKey evs start = Some a \<Longrightarrow> one_pending a"
  by (erule run_one_pending) (simp add: one_pending_def start_def initial_def)

text \<open>
  The condition on the idea list is kept by every click and by every selection, and by a
  whole execution of \<open>handleGenerateIdeas\<close> that nothing interrupts.
\<close>

lemma clicks_keep_ideas_need_prompt:
  assumes "step PROMPTS GENRES hasApiKey ev a = Some a'"
    and "\<forall>out. ev \<noteq> Settled out" and "ideas_need_prompt (ui a)"
  shows "ideas_need_prompt (ui a')"
  using assms
  by (auto simp: step_def ideas_need_prompt_def handler_defs Let_def
      split: event.splits if_splits option.splits list.splits)

lemma uninterrupted_keeps_ideas_need_prompt:
  assumes "ideas_need_prompt s"
  shows "ideas_need_prompt (fst (handleGenerateIdeas hasApiKey generateStoryIdeas s))"
  using assms
  by (auto simp: ideas_need_prompt_def handler_defs split: option.splits outcome.splits)

text \<open>
  What the \<^verbatim>\<open>catch\<close> and \<^verbatim>\<open>finally\<close> blocks do to the state they run on,
  whatever happened to it during the \<^verbatim>\<open>await\<close>.
\<close>

lemma settle_rejected:
  "handleGenerateIdeas_settle (Rejected m) u =
     u\<lparr>error := Some (message_or m ''An unknown error occurred.''), isLoadingIdeas := False\<rparr>"
  by (simp add: handleGenerateIdeas_settle_def)

lemma message_or_present: "t \<noteq> [] \<Longrightarrow> message_or (Some t) d = t"
  by (simp add: message_or_def)

lemma message_or_absent: "m = None \<or> m = Some [] \<Longrightarrow> message_or m d = d"
  by (auto simp: message_or_def)

text \<open>
  While a call is pending the idea list is empty, in every state reached from the start:
  the click that issues the call empties the list, and until the call settles nothing
  stores an idea.
\<close>

lemma step_pending_no_ideas:
  assumes "step PROMPTS GENRES hasApiKey ev a = Some a'"
    and "one_pending a" and "pending_no_ideas a"
  shows "pending_no_ideas a'"
  using assms
  by (auto simp: step_def one_pending_def pending_no_ideas_def handler_defs Let_def
      split: event.splits if_splits option.splits list.splits outcome.splits)

lemma run_pending_no_ideas:
  "run PROMPTS GENRES hasApiKey evs a = Some a' \<Longrightarrow> one_pending a \<Longrightarrow>
     pending_no_ideas a \<Longrightarrow> pending_no_ideas a'"
proof (induction evs arbitrary: a)
  case Nil
  then show ?case by simp
next
  case (Cons ev evs)
  then obtain b where b: "step PROMPTS GENRES hasApiKey ev a = Some b"
    and rest: "run PROMPTS GENRES hasApiKey evs b = Some a'"
    by (auto split: option.splits)
  from b Cons.prems(2) have "one_pending b"
    by (rule step_one_pending)
  moreover from b Cons.prems(2,3) have "pending_no_ideas b"
    by (rule step_pending_no_ideas)
  ultimately show ?case
    using rest Cons.IH by blast
qed

lemma reachable_pending_no_ideas:
  "run PROMPTS GENRES hasApiKey evs start = Some a \<Longrightarrow> pending_no_ideas a"
  by (erule run_pending_no_ideas)
    (simp_all add: one_pending_def pending_no_ideas_def start_def initial_def)

lemma reachable_failure_settles:
  assumes "run PROMPTS GENRES hasApiKey evs start = Some a"
    and "step PROMPTS GENRES hasApiKey (Settled (Rejected m)) a = Some b"
  shows "ui b = handleGenerateIdeas_settle (Rejected m) (ui a) \<and>
         storyIdeas (ui b) = [] \<and> pending b = []"
proof -
  from assms(1) have inv: "pending_no_ideas a"
    by (rule reachable_pending_no_ideas)
  from assms(2) obtain p ps where p: "pending a = p # ps"
    and b: "b = a\<lparr>ui := handleGenerateIdeas_settle (Rejected m) (ui a), pending := ps\<rparr>"
    by (auto simp: step_def split: list.splits)
  from inv p have "ps = []" and "storyIdeas (ui a) = []"
    by (simp_all add: pending_no_ideas_def)
  then show ?thesis
    using b by (simp add: settle_rejected)
qed

section \<open>The claims\<close>

text \<open>
  Claim C1. In every reachable state the idea list is non-empty only when a prompt is
  selected; the operations that unset the prompt empty the list, and generating ideas
  stores a result only while a prompt is shown.

  The clicks keep this condition (\<open>clicks_keep_ideas_need_prompt\<close>), and so does an
  execution of \<open>handleGenerateIdeas\<close> that nothing interrupts. The part of the handler
  after the \<^verbatim>\<open>await\<close> does not look at the prompt again, though, and Change Genre
  stays enabled while the call is pending. The execution below generates a prompt, asks
  for ideas, presses Change Genre and then lets the call resolve: it ends with one idea
  stored and no prompt selected.
\<close>

theorem stale_ideas_stored_without_prompt:
  "run [fantasy] [''All'', ''Fantasy''] True
     [ClickGeneratePrompt 0, ClickSparkCreativity, ClickChangeGenre,
      Settled (Resolved [''A tutor for dragons.''])] start
   = Some \<lparr>ui = \<lparr>currentPrompt = None, storyIdeas = [''A tutor for dragons.''],
                 isLoadingIdeas = False, error = None, selectedGenre = ''All''\<rparr>,
            pending = []\<rparr>"
  by (simp add: step_def in_unit_def randomIndex_def handler_defs example_defs)

text \<open>
  Claim C2. Every prompt that \<open>handleGeneratePrompt\<close> sets as the current prompt is an
  element of \<open>PROMPTS\<close>, and when the selected genre is not \<open>All\<close> its genre is the
  selected one. The handler sets the current prompt exactly when the list it chooses from
  is not empty; whatever prompt it then stores has both properties, and for a draw of
  \<^verbatim>\<open>Math.random()\<close>, which lies in \<open>[0, 1)\<close>, it does store one. When the list is
  empty the current prompt stays as it was.
\<close>

theorem handleGeneratePrompt_picks_from_PROMPTS:
  "(filteredPrompts PROMPTS (selectedGenre s) \<noteq> [] \<longrightarrow>
      (\<forall>p. currentPrompt (handleGeneratePrompt PROMPTS r s) = Some p \<longrightarrow>
           p \<in> set PROMPTS \<and> (selectedGenre s \<noteq> ''All'' \<longrightarrow> genre p = selectedGenre s)) \<and>
      (in_unit r \<longrightarrow> currentPrompt (handleGeneratePrompt PROMPTS r s) \<noteq> None)) \<and>
   (filteredPrompts PROMPTS (selectedGenre s) = [] \<longrightarrow>
      currentPrompt (handleGeneratePrompt PROMPTS r s) = currentPrompt s)"
proof -
  define fp where "fp = filteredPrompts PROMPTS (selectedGenre s)"
  define i where "i = randomIndex r (length fp)"
  have empty: "fp = [] \<longrightarrow> currentPrompt (handleGeneratePrompt PROMPTS r s) = currentPrompt s"
    by (simp add: handleGeneratePrompt_def fp_def)
  have cur: "currentPrompt (handleGeneratePrompt PROMPTS r s) = at_index fp i" if "fp \<noteq> []"
    using that by (simp add: handleGeneratePrompt_def Let_def fp_def i_def)
  have chosen: "p \<in> set PROMPTS \<and> (selectedGenre s \<noteq> ''All'' \<longrightarrow> genre p = selectedGenre s)"
    if "fp \<noteq> []" and "currentPrompt (handleGeneratePrompt PROMPTS r s) = Some p" for p
  proof -
    from that have "p \<in> set fp"
      by (simp add: cur at_index_member)
    then show ?thesis
      using filteredPrompts_subset filteredPrompts_genre by (auto simp: fp_def)
  qed
  have some: "currentPrompt (handleGeneratePrompt PROMPTS r s) \<noteq> None"
    if "fp \<noteq> []" and "in_unit r"
    using that randomIndex_in_range [of r "length fp"]
    by (simp add: cur at_index_def i_def)
  show ?thesis
    using empty chosen some unfolding fp_def by blast
qed

theorem handleGeneratePrompt_picks_from_PROMPTS_witness:
  "filteredPrompts [fantasy, horror] (selectedGenre (initial\<lparr>selectedGenre := ''Horror''\<rparr>)) \<noteq> [] \<and>
   in_unit (1 / 2) \<and>
   selectedGenre (initial\<lparr>selectedGenre := ''Horror''\<rparr>) \<noteq> ''All'' \<and>
   currentPrompt (handleGeneratePrompt [fantasy, horror] (1 / 2)
       (initial\<lparr>selectedGenre := ''Horror''\<rparr>)) = Some horror \<and>
   horror \<in> set [fantasy, horror] \<and>
   genre horror = selectedGenre (initial\<lparr>selectedGenre := ''Horror''\<rparr>) \<and>
   filteredPrompts [fantasy] (selectedGenre (initial\<lparr>selectedGenre := ''Horror''\<rparr>)) = [] \<and>
   currentPrompt (handleGeneratePrompt [fantasy] (1 / 2) (initial\<lparr>selectedGenre := ''Horror''\<rparr>))
     = currentPrompt (initial\<lparr>selectedGenre := ''Horror''\<rparr>)"
proof -
  let ?s = "initial\<lparr>selectedGenre := ''Horror''\<rparr>"
  have ne: "filteredPrompts [fantasy, horror] (selectedGenre ?s) \<noteq> []"
    by (simp add: filteredPrompts_def fantasy_def horror_def)
  have unit: "in_unit (1 / 2)"
    by (simp add: in_unit_def)
  have sel: "selectedGenre ?s \<noteq> ''All''"
    by simp
  have cur: "currentPrompt (handleGeneratePrompt [fantasy, horror] (1 / 2) ?s) = Some horror"
    by (simp add: handleGeneratePrompt_def filteredPrompts_def at_index_def
        randomIndex_half_one fantasy_def horror_def)
  have emp: "filteredPrompts [fantasy] (selectedGenre ?s) = []"
    by (simp add: filteredPrompts_def fantasy_def)
  from handleGeneratePrompt_picks_from_PROMPTS [of "[fantasy, horror]" ?s "1 / 2"] ne cur sel
  have chosen: "horror \<in> set [fantasy, horror] \<and> genre horror = selectedGenre ?s"
    by blast
  from handleGeneratePrompt_picks_from_PROMPTS [of "[fantasy]" ?s "1 / 2"] emp
  have kept: "currentPrompt (handleGeneratePrompt [fantasy] (1 / 2) ?s) = currentPrompt ?s"
    by blast
  from ne unit sel cur chosen emp kept show ?thesis
    by blast
qed

text \<open>
  Claim C3. The idea list is replaced wholesale on each generation request and cleared
  whenever the current prompt changes. With a prompt shown and an API key,
  \<open>handleGenerateIdeas\<close> empties the list before the call; when the call resolves the list
  becomes exactly the returned sequence, whatever it held before; and every step of the
  application that changes the current prompt, \<open>handleGeneratePrompt\<close> among them, leaves
  the list empty.
\<close>

theorem idea_list_replaced_and_cleared:
  "(currentPrompt s = Some p \<longrightarrow>
      storyIdeas (fst (handleGenerateIdeas_begin True s)) = []) \<and>
   storyIdeas (handleGenerateIdeas_settle (Resolved ideas) t) = ideas \<and>
   (currentPrompt s = Some p \<and> generateStoryIdeas p 0 = Resolved ideas \<longrightarrow>
      storyIdeas (fst (handleGenerateIdeas True generateStoryIdeas s)) = ideas) \<and>
   (currentPrompt (handleGeneratePrompt PROMPTS r u) \<noteq> currentPrompt u \<longrightarrow>
      storyIdeas (handleGeneratePrompt PROMPTS r u) = []) \<and>
   (step PROMPTS GENRES hasApiKey ev a = Some a' \<and>
    currentPrompt (ui a') \<noteq> currentPrompt (ui a) \<longrightarrow> storyIdeas (ui a') = [])"
proof -
  have "currentPrompt s = Some p \<longrightarrow>
      storyIdeas (fst (handleGenerateIdeas_begin True s)) = []"
    by (simp add: handleGenerateIdeas_begin_def)
  moreover have "storyIdeas (handleGenerateIdeas_settle (Resolved ideas) t) = ideas"
    by (simp add: handleGenerateIdeas_settle_def)
  moreover have "currentPrompt s = Some p \<and> generateStoryIdeas p 0 = Resolved ideas \<longrightarrow>
      storyIdeas (fst (handleGenerateIdeas True generateStoryIdeas s)) = ideas"
    by (simp add: handleGenerateIdeas_def handleGenerateIdeas_begin_def
        handleGenerateIdeas_settle_def)
  moreover have "currentPrompt (handleGeneratePrompt PROMPTS r u) \<noteq> currentPrompt u \<longrightarrow>
      storyIdeas (handleGeneratePrompt PROMPTS r u) = []"
    by (simp add: handleGeneratePrompt_def Let_def)
  moreover have "step PROMPTS GENRES hasApiKey ev a = Some a' \<and>
      currentPrompt (ui a') \<noteq> currentPrompt (ui a) \<longrightarrow> storyIdeas (ui a') = []"
    using step_prompt_change_clears by blast
  ultimately show ?thesis
    by blast
qed

theorem idea_list_replaced_and_cleared_witness:
  "currentPrompt (shown\<lparr>storyIdeas := [''old idea'']\<rparr>) = Some fantasy \<and>
   working_service fantasy 0 =
     Resolved [''The dragon hires a tutor.'', ''The dragon walks.''] \<and>
   storyIdeas (fst (handleGenerateIdeas_begin True (shown\<lparr>storyIdeas := [''old idea'']\<rparr>))) = [] \<and>
   storyIdeas (fst (handleGenerateIdeas True working_service
      (shown\<lparr>storyIdeas := [''old idea'']\<rparr>))) =
     [''The dragon hires a tutor.'', ''The dragon walks.''] \<and>
   currentPrompt (handleGeneratePrompt [horror] 0 (shown\<lparr>storyIdeas := [''old idea'']\<rparr>)) \<noteq>
     currentPrompt (shown\<lparr>storyIdeas := [''old idea'']\<rparr>) \<and>
   storyIdeas (handleGeneratePrompt [horror] 0 (shown\<lparr>storyIdeas := [''old idea'']\<rparr>)) = [] \<and>
   step [horror] [''All''] True ClickChangeGenre
      \<lparr>ui = shown\<lparr>storyIdeas := [''old idea'']\<rparr>, pending = []\<rparr> =
     Some \<lparr>ui = initial, pending = []\<rparr> \<and>
   currentPrompt (ui \<lparr>ui = initial, pending = []\<rparr>) \<noteq>
     currentPrompt (ui \<lparr>ui = shown\<lparr>storyIdeas := [''old idea'']\<rparr>, pending = []\<rparr>) \<and>
   storyIdeas (ui \<lparr>ui = initial, pending = []\<rparr>) = []"
  using idea_list_replaced_and_cleared
    [where s = "shown\<lparr>storyIdeas := [''old idea'']\<rparr>" and p = fantasy
       and ideas = "[''The dragon hires a tutor.'', ''The dragon walks.'']"
       and t = "shown\<lparr>storyIdeas := [''old idea'']\<rparr>"
       and generateStoryIdeas = working_service
       and PROMPTS = "[horror]" and r = 0
       and u = "shown\<lparr>storyIdeas := [''old idea'']\<rparr>"
       and GENRES = "[''All'']" and hasApiKey = True and ev = ClickChangeGenre
       and a = "\<lparr>ui = shown\<lparr>storyIdeas := [''old idea'']\<rparr>, pending = []\<rparr>"
       and a' = "\<lparr>ui = initial, pending = []\<rparr>"]
  by (simp add: step_def handler_defs example_defs)

text \<open>
  Claim C4. The application follows the flow idle, prompt shown, loading, ideas or error.
  Without a prompt \<open>handleGenerateIdeas\<close> returns with the state unchanged and no call
  made. A prompt comes to be shown only by Generate a Prompt. The loading flag is raised
  only by Spark Creativity, in a state where a prompt is shown. It is lowered only when the
  call settles, and that step stores the returned ideas or an error message; with a call
  pending, that step can always be taken and lowers the flag.
\<close>

theorem loading_entered_and_left:
  "(currentPrompt s = None \<longrightarrow>
      handleGenerateIdeas_begin hasApiKey s = (s, None) \<and>
      handleGenerateIdeas hasApiKey generateStoryIdeas s = (s, [])) \<and>
   (step PROMPTS GENRES hasApiKey evP aP = Some bP \<and>
    currentPrompt (ui aP) = None \<and> currentPrompt (ui bP) \<noteq> None \<longrightarrow>
      (\<exists>r. evP = ClickGeneratePrompt r)) \<and>
   (step PROMPTS GENRES hasApiKey evL aL = Some bL \<and>
    \<not> isLoadingIdeas (ui aL) \<and> isLoadingIdeas (ui bL) \<longrightarrow>
      evL = ClickSparkCreativity \<and> currentPrompt (ui aL) \<noteq> None) \<and>
   (step PROMPTS GENRES hasApiKey evD aD = Some bD \<and>
    isLoadingIdeas (ui aD) \<and> \<not> isLoadingIdeas (ui bD) \<longrightarrow>
      (\<exists>ideas. evD = Settled (Resolved ideas) \<and> storyIdeas (ui bD) = ideas) \<or>
      (\<exists>m. evD = Settled (Rejected m) \<and> error (ui bD) \<noteq> None)) \<and>
   (pending aS \<noteq> [] \<longrightarrow>
      (\<exists>bS. step PROMPTS GENRES hasApiKey (Settled out) aS = Some bS \<and>
            \<not> isLoadingIdeas (ui bS)))"
proof -
  have "currentPrompt s = None \<longrightarrow>
      handleGenerateIdeas_begin hasApiKey s = (s, None) \<and>
      handleGenerateIdeas hasApiKey generateStoryIdeas s = (s, [])"
    by (simp add: handleGenerateIdeas_begin_def handleGenerateIdeas_def)
  moreover have "step PROMPTS GENRES hasApiKey evP aP = Some bP \<and>
      currentPrompt (ui aP) = None \<and> currentPrompt (ui bP) \<noteq> None \<longrightarrow>
      (\<exists>r. evP = ClickGeneratePrompt r)"
    using step_shows_prompt by blast
  moreover have "step PROMPTS GENRES hasApiKey evL aL = Some bL \<and>
      \<not> isLoadingIdeas (ui aL) \<and> isLoadingIdeas (ui bL) \<longrightarrow>
      evL = ClickSparkCreativity \<and> currentPrompt (ui aL) \<noteq> None"
    using step_enters_loading by blast
  moreover have "step PROMPTS GENRES hasApiKey evD aD = Some bD \<and>
      isLoadingIdeas (ui aD) \<and> \<not> isLoadingIdeas (ui bD) \<longrightarrow>
      (\<exists>ideas. evD = Settled (Resolved ideas) \<and> storyIdeas (ui bD) = ideas) \<or>
      (\<exists>m. evD = Settled (Rejected m) \<and> error (ui bD) \<noteq> None)"
    using step_leaves_loading by blast
  moreover have "pending aS \<noteq> [] \<longrightarrow>
      (\<exists>bS. step PROMPTS GENRES hasApiKey (Settled out) aS = Some bS \<and>
            \<not> isLoadingIdeas (ui bS))"
    using step_settles by blast
  ultimately show ?thesis
    by blast
qed

theorem loading_entered_and_left_witness:
  "currentPrompt initial = None \<and>
   handleGenerateIdeas True working_service initial = (initial, []) \<and>
   step [fantasy] [''All''] True (ClickGeneratePrompt 0) start = Some shown_app \<and>
   currentPrompt (ui start) = None \<and> currentPrompt (ui shown_app) \<noteq> None \<and>
   step [fantasy] [''All''] True ClickSparkCreativity shown_app = Some loading_app \<and>
   \<not> isLoadingIdeas (ui shown_app) \<and> isLoadingIdeas (ui loading_app) \<and>
   step [fantasy] [''All''] True (Settled (Rejected None)) loading_app =
     Some \<lparr>ui = shown\<lparr>error := Some ''An unknown error occurred.''\<rparr>, pending = []\<rparr> \<and>
   pending loading_app \<noteq> [] \<and>
   (\<exists>bS. step [fantasy] [''All''] True (Settled (Resolved [''The dragon walks.''])) loading_app
           = Some bS \<and> \<not> isLoadingIdeas (ui bS))"
  using loading_entered_and_left
    [where s = initial and hasApiKey = True and generateStoryIdeas = working_service
       and PROMPTS = "[fantasy]" and GENRES = "[''All'']"
       and evP = "ClickGeneratePrompt 0" and aP = start and bP = shown_app
       and evL = ClickSparkCreativity and aL = shown_app and bL = loading_app
       and evD = "Settled (Rejected None)" and aD = loading_app
       and bD = "\<lparr>ui = shown\<lparr>error := Some ''An unknown error occurred.''\<rparr>, pending = []\<rparr>"
       and aS = loading_app and out = "Resolved [''The dragon walks.'']"]
  by (simp add: step_def in_unit_def randomIndex_def handler_defs example_defs)

text \<open>
  Claim C5. When the call to \<open>generateStoryIdeas\<close> fails, all that happens is that the
  error's message reaches the user: the error cell holds the message of the thrown error,
  or \<open>An unknown error occurred.\<close> when the error carries none (no \<open>message\<close> property, or
  an empty one, as \<^verbatim>\<open>new Error()\<close> has); the idea list is empty and the loading flag
  is down; every other cell is as before, and the one call is all that was made.

  This is stated three times. First of the part of the handler that runs when the call
  fails, on whatever state it finds: it sets the error cell and lowers the flag, and
  touches nothing else. Then of the application: in every state reached from the start in
  which a failure settles, whatever was clicked during the \<^verbatim>\<open>await\<close>, the idea list
  is empty afterwards and no call is left pending. Last of a whole execution that nothing
  interrupts.
\<close>

theorem failure_surfaces_message:
  "(\<forall>t. m = Some t \<and> t \<noteq> [] \<longrightarrow>
      handleGenerateIdeas_settle (Rejected m) u =
        u\<lparr>error := Some t, isLoadingIdeas := False\<rparr>) \<and>
   (m = None \<or> m = Some [] \<longrightarrow>
      handleGenerateIdeas_settle (Rejected m) u =
        u\<lparr>error := Some ''An unknown error occurred.'', isLoadingIdeas := False\<rparr>) \<and>
   (run PROMPTS GENRES hasApiKey evs start = Some a \<and>
    step PROMPTS GENRES hasApiKey (Settled (Rejected m)) a = Some b \<longrightarrow>
      ui b = handleGenerateIdeas_settle (Rejected m) (ui a) \<and>
      storyIdeas (ui b) = [] \<and> pending b = []) \<and>
   (currentPrompt s = Some p \<and> generateStoryIdeas p 0 = Rejected m \<longrightarrow>
      (\<forall>t. m = Some t \<and> t \<noteq> [] \<longrightarrow>
         fst (handleGenerateIdeas True generateStoryIdeas s) =
           s\<lparr>isLoadingIdeas := False, error := Some t, storyIdeas := []\<rparr>) \<and>
      (m = None \<or> m = Some [] \<longrightarrow>
         fst (handleGenerateIdeas True generateStoryIdeas s) =
           s\<lparr>isLoadingIdeas := False, error := Some ''An unknown error occurred.'',
             storyIdeas := []\<rparr>) \<and>
      snd (handleGenerateIdeas True generateStoryIdeas s) = [p])"
proof -
  have present: "\<forall>t. m = Some t \<and> t \<noteq> [] \<longrightarrow>
      handleGenerateIdeas_settle (Rejected m) u =
        u\<lparr>error := Some t, isLoadingIdeas := False\<rparr>"
    by (simp add: settle_rejected message_or_present)
  have absent: "m = None \<or> m = Some [] \<longrightarrow>
      handleGenerateIdeas_settle (Rejected m) u =
        u\<lparr>error := Some ''An unknown error occurred.'', isLoadingIdeas := False\<rparr>"
    by (simp add: settle_rejected message_or_absent)
  have reached: "run PROMPTS GENRES hasApiKey evs start = Some a \<and>
      step PROMPTS GENRES hasApiKey (Settled (Rejected m)) a = Some b \<longrightarrow>
      ui b = handleGenerateIdeas_settle (Rejected m) (ui a) \<and>
      storyIdeas (ui b) = [] \<and> pending b = []"
    using reachable_failure_settles by blast
  have whole: "currentPrompt s = Some p \<and> generateStoryIdeas p 0 = Rejected m \<longrightarrow>
      (\<forall>t. m = Some t \<and> t \<noteq> [] \<longrightarrow>
         fst (handleGenerateIdeas True generateStoryIdeas s) =
           s\<lparr>isLoadingIdeas := False, error := Some t, storyIdeas := []\<rparr>) \<and>
      (m = None \<or> m = Some [] \<longrightarrow>
         fst (handleGenerateIdeas True generateStoryIdeas s) =
           s\<lparr>isLoadingIdeas := False, error := Some ''An unknown error occurred.'',
             storyIdeas := []\<rparr>) \<and>
      snd (handleGenerateIdeas True generateStoryIdeas s) = [p]"
    by (auto simp: handleGenerateIdeas_def handleGenerateIdeas_begin_def
        handleGenerateIdeas_settle_def message_or_def)
  from present absent reached whole show ?thesis
    by (intro conjI)
qed

theorem failure_surfaces_message_witness:
  "run [fantasy] [''All''] True
     [ClickGeneratePrompt 0, ClickSparkCreativity, ClickChangeGenre] start
     = Some interrupted_app \<and>
   step [fantasy] [''All''] True (Settled (Rejected (Some ''quota exceeded''))) interrupted_app
     = Some \<lparr>ui = initial\<lparr>error := Some ''quota exceeded''\<rparr>, pending = []\<rparr> \<and>
   handleGenerateIdeas_settle (Rejected (Some ''quota exceeded'')) (ui interrupted_app) =
     (ui interrupted_app)\<lparr>error := Some ''quota exceeded'', isLoadingIdeas := False\<rparr> \<and>
   handleGenerateIdeas_settle (Rejected None) (ui interrupted_app) =
     (ui interrupted_app)\<lparr>error := Some ''An unknown error occurred.'',
       isLoadingIdeas := False\<rparr> \<and>
   storyIdeas (ui \<lparr>ui = initial\<lparr>error := Some ''quota exceeded''\<rparr>, pending = []\<rparr>) = [] \<and>
   currentPrompt shown = Some fantasy \<and>
   failing_service fantasy 0 = Rejected (Some ''quota exceeded'') \<and>
   silent_service fantasy 0 = Rejected None \<and>
   fst (handleGenerateIdeas True failing_service shown) =
     shown\<lparr>isLoadingIdeas := False, error := Some ''quota exceeded'', storyIdeas := []\<rparr> \<and>
   fst (handleGenerateIdeas True silent_service shown) =
     shown\<lparr>isLoadingIdeas := False, error := Some ''An unknown error occurred.'',
       storyIdeas := []\<rparr> \<and>
   snd (handleGenerateIdeas True failing_service shown) = [fantasy]"
proof -
  let ?b = "\<lparr>ui = initial\<lparr>error := Some ''quota exceeded''\<rparr>, pending = []\<rparr>"
  have r: "run [fantasy] [''All''] True
      [ClickGeneratePrompt 0, ClickSparkCreativity, ClickChangeGenre] start
      = Some interrupted_app"
    by (simp add: step_def in_unit_def randomIndex_def handler_defs example_defs
        interrupted_app_def)
  have st: "step [fantasy] [''All''] True (Settled (Rejected (Some ''quota exceeded'')))
      interrupted_app = Some ?b"
    by (simp add: step_def handler_defs example_defs interrupted_app_def)
  have ne: "''quota exceeded'' \<noteq> []"
    by simp
  have h: "currentPrompt shown = Some fantasy"
    by (simp add: shown_def)
  have f: "failing_service fantasy 0 = Rejected (Some ''quota exceeded'')"
    by (simp add: failing_service_def)
  have g: "silent_service fantasy 0 = Rejected None"
    by (simp add: silent_service_def)
  note loud = failure_surfaces_message
    [where m = "Some ''quota exceeded''" and u = "ui interrupted_app"
       and PROMPTS = "[fantasy]" and GENRES = "[''All'']" and hasApiKey = True
       and evs = "[ClickGeneratePrompt 0, ClickSparkCreativity, ClickChangeGenre]"
       and a = interrupted_app and b = ?b
       and s = shown and p = fantasy and generateStoryIdeas = failing_service]
  note silent = failure_surfaces_message
    [where m = None and u = "ui interrupted_app"
       and s = shown and p = fantasy and generateStoryIdeas = silent_service]
  from loud ne have
    "handleGenerateIdeas_settle (Rejected (Some ''quota exceeded'')) (ui interrupted_app) =
       (ui interrupted_app)\<lparr>error := Some ''quota exceeded'', isLoadingIdeas := False\<rparr>"
    by blast
  moreover from silent have
    "handleGenerateIdeas_settle (Rejected None) (ui interrupted_app) =
       (ui interrupted_app)\<lparr>error := Some ''An unknown error occurred.'',
         isLoadingIdeas := False\<rparr>"
    by blast
  moreover from loud r st have "storyIdeas (ui ?b) = []"
    by blast
  moreover from loud h f ne have
    "fst (handleGenerateIdeas True failing_service shown) =
       shown\<lparr>isLoadingIdeas := False, error := Some ''quota exceeded'', storyIdeas := []\<rparr> \<and>
     snd (handleGenerateIdeas True failing_service shown) = [fantasy]"
    by blast
  moreover from silent h g have
    "fst (handleGenerateIdeas True silent_service shown) =
       shown\<lparr>isLoadingIdeas := False, error := Some ''An unknown error occurred.'',
         storyIdeas := []\<rparr>"
    by blast
  ultimately show ?thesis
    using r st h f g by blast
qed

text \<open>
  Claim C6. Each request issues the external call at most once. An execution of
  \<open>handleGenerateIdeas\<close> makes no call or one; when the call fails, that one call is all
  there is. In the application, a click on Spark Creativity adds at most one pending call,
  and the settling of a failed call adds none.
\<close>

theorem at_most_one_service_call:
  "length (snd (handleGenerateIdeas hasApiKey generateStoryIdeas s)) \<le> 1 \<and>
   (currentPrompt s = Some p \<and> hasApiKey \<and> generateStoryIdeas p 0 = Rejected m \<longrightarrow>
      snd (handleGenerateIdeas hasApiKey generateStoryIdeas s) = [p]) \<and>
   (step PROMPTS GENRES hasApiKey ClickSparkCreativity a = Some b \<longrightarrow>
      length (pending b) \<le> length (pending a) + 1) \<and>
   (step PROMPTS GENRES hasApiKey (Settled (Rejected n)) c = Some d \<longrightarrow>
      pending d = tl (pending c))"
  by (auto simp: step_def handleGenerateIdeas_def handleGenerateIdeas_begin_def
      split: if_splits option.splits list.splits)

theorem at_most_one_service_call_witness:
  "length (snd (handleGenerateIdeas True failing_service shown)) \<le> 1 \<and>
   currentPrompt shown = Some fantasy \<and>
   failing_service fantasy 0 = Rejected (Some ''quota exceeded'') \<and>
   snd (handleGenerateIdeas True failing_service shown) = [fantasy] \<and>
   step [fantasy] [''All''] True ClickSparkCreativity shown_app = Some loading_app \<and>
   length (pending loading_app) \<le> length (pending shown_app) + 1 \<and>
   step [fantasy] [''All''] True (Settled (Rejected (Some ''quota exceeded''))) loading_app =
     Some \<lparr>ui = shown\<lparr>error := Some ''quota exceeded''\<rparr>, pending = []\<rparr> \<and>
   pending \<lparr>ui = shown\<lparr>error := Some ''quota exceeded''\<rparr>, pending = []\<rparr> =
     tl (pending loading_app)"
  using at_most_one_service_call
    [where hasApiKey = True and generateStoryIdeas = failing_service and s = shown
       and p = fantasy and m = "Some ''quota exceeded''"
       and PROMPTS = "[fantasy]" and GENRES = "[''All'']"
       and a = shown_app and b = loading_app
       and n = "Some ''quota exceeded''" and c = loading_app
       and d = "\<lparr>ui = shown\<lparr>error := Some ''quota exceeded''\<rparr>, pending = []\<rparr>"]
  by (simp add: step_def handler_defs example_defs)

text \<open>
  Claim C7. Generating ideas never changes the current prompt or the selected genre:
  neither the part of \<open>handleGenerateIdeas\<close> before the \<^verbatim>\<open>await\<close>, nor the part after
  it, nor a whole execution, whether it returns early, succeeds or fails.
\<close>

theorem handleGenerateIdeas_frame:
  "currentPrompt (fst (handleGenerateIdeas_begin hasApiKey s)) = currentPrompt s \<and>
   selectedGenre (fst (handleGenerateIdeas_begin hasApiKey s)) = selectedGenre s \<and>
   currentPrompt (handleGenerateIdeas_settle out s) = currentPrompt s \<and>
   selectedGenre (handleGenerateIdeas_settle out s) = selectedGenre s \<and>
   currentPrompt (fst (handleGenerateIdeas hasApiKey generateStoryIdeas s)) = currentPrompt s \<and>
   selectedGenre (fst (handleGenerateIdeas hasApiKey generateStoryIdeas s)) = selectedGenre s"
  by (simp add: handleGenerateIdeas_begin_def handleGenerateIdeas_settle_def
      handleGenerateIdeas_def split: option.split outcome.split)

text \<open>
  Claim C8. Without an API key, \<open>handleGenerateIdeas\<close> with a prompt selected sets the
  error to the fixed message and returns: no call to the service is made, and the current
  prompt, the idea list and the loading flag are as before.
\<close>

theorem no_api_key_sets_error_only:
  assumes "currentPrompt s = Some p"
  shows "handleGenerateIdeas False generateStoryIdeas s =
           (s\<lparr>error := Some ''AI features are disabled. Please configure your API key.''\<rparr>,
            []) \<and>
         currentPrompt (fst (handleGenerateIdeas False generateStoryIdeas s)) = currentPrompt s \<and>
         storyIdeas (fst (handleGenerateIdeas False generateStoryIdeas s)) = storyIdeas s \<and>
         isLoadingIdeas (fst (handleGenerateIdeas False generateStoryIdeas s)) =
           isLoadingIdeas s"
  using assms by (simp add: handleGenerateIdeas_def handleGenerateIdeas_begin_def)

theorem no_api_key_sets_error_only_witness:
  "currentPrompt (shown\<lparr>storyIdeas := [''old idea'']\<rparr>) = Some fantasy \<and>
   handleGenerateIdeas False working_service (shown\<lparr>storyIdeas := [''old idea'']\<rparr>) =
     (shown\<lparr>storyIdeas := [''old idea''],
        error := Some ''AI features are disabled. Please configure your API key.''\<rparr>, [])"
proof -
  have h: "currentPrompt (shown\<lparr>storyIdeas := [''old idea'']\<rparr>) = Some fantasy"
    by (simp add: shown_def)
  show ?thesis
    using h no_api_key_sets_error_only [where generateStoryIdeas = working_service, OF h]
    by simp
qed

text \<open>
  Claim C9. When the selected genre matches no prompt of \<open>PROMPTS\<close>, that is, when the
  list \<open>handleGeneratePrompt\<close> would choose from is empty, the handler sets an error
  message that names the selected genre and changes nothing else: the current prompt and
  the idea list are as before.
\<close>

theorem no_matching_prompt_sets_error_only:
  assumes "filteredPrompts PROMPTS (selectedGenre s) = []"
  shows "handleGeneratePrompt PROMPTS r s =
           s\<lparr>error := Some (''No prompts found for the \"'' @ selectedGenre s @
                              ''\" genre. Please select another.'')\<rparr> \<and>
         currentPrompt (handleGeneratePrompt PROMPTS r s) = currentPrompt s \<and>
         storyIdeas (handleGeneratePrompt PROMPTS r s) = storyIdeas s"
  using assms by (simp add: handleGeneratePrompt_def noPromptsMessage_def)

theorem no_matching_prompt_sets_error_only_witness:
  "filteredPrompts [fantasy] (selectedGenre (initial\<lparr>selectedGenre := ''Horror''\<rparr>)) = [] \<and>
   handleGeneratePrompt [fantasy] (1 / 2) (initial\<lparr>selectedGenre := ''Horror''\<rparr>) =
     initial\<lparr>selectedGenre := ''Horror'',
       error := Some ''No prompts found for the \"Horror\" genre. Please select another.''\<rparr>"
proof -
  have h: "filteredPrompts [fantasy] (selectedGenre (initial\<lparr>selectedGenre := ''Horror''\<rparr>)) = []"
    by (simp add: filteredPrompts_def fantasy_def)
  show ?thesis
    using h no_matching_prompt_sets_error_only [where r = "1 / 2", OF h]
    by simp
qed

text \<open>
  Claim C10. The loading flag is always cleared when a request completes. The part of
  \<open>handleGenerateIdeas\<close> that runs when the call settles leaves the flag down, whatever
  the outcome and whatever the state it runs on; and an execution that raises the flag
  (a prompt is shown and an API key is there) ends with the flag down, whether the call
  succeeds or throws.
\<close>

theorem loading_flag_cleared:
  "isLoadingIdeas (handleGenerateIdeas_settle out t) = False \<and>
   (currentPrompt s = Some p \<longrightarrow>
      isLoadingIdeas (fst (handleGenerateIdeas_begin True s)) = True \<and>
      isLoadingIdeas (fst (handleGenerateIdeas True generateStoryIdeas s)) = False)"
  by (simp add: handleGenerateIdeas_begin_def handleGenerateIdeas_settle_def
      handleGenerateIdeas_def split: option.split outcome.split)

theorem loading_flag_cleared_witness:
  "currentPrompt shown = Some fantasy \<and>
   isLoadingIdeas (fst (handleGenerateIdeas_begin True shown)) \<and>
   \<not> isLoadingIdeas (fst (handleGenerateIdeas True working_service shown)) \<and>
   \<not> isLoadingIdeas (fst (handleGenerateIdeas True failing_service shown))"
  using loading_flag_cleared [where s = shown and p = fantasy
      and generateStoryIdeas = working_service]
    loading_flag_cleared [where s = shown and p = fantasy
      and generateStoryIdeas = failing_service]
  by (simp add: shown_def)

end
